theory Spec2Isabelle
  imports Complex_Main
begin

section \<open>Strings\<close>

text \<open>
  Document text, table cells and ticker symbols are JavaScript strings. They are modelled
  as HOL strings, one \<open>char\<close> per code unit, and the text is taken to be ASCII: the
  white-space class and the case mappings below are those of JavaScript on the ASCII range.
\<close>

definition isSpace :: "char \<Rightarrow> bool" where
  \<comment> \<open>the ASCII members of the class \<open>\s\<close>, which are also what \<open>trim\<close> strips\<close>
  "isSpace c = (of_char c \<in> {9, 10, 11, 12, 13, 32 :: nat})"

definition isDigit :: "char \<Rightarrow> bool" where
  "isDigit c = (48 \<le> (of_char c :: nat) \<and> (of_char c :: nat) \<le> 57)"

definition digitVal :: "char \<Rightarrow> nat" where
  "digitVal c = of_char c - 48"

definition lowerLetters :: string where
  "lowerLetters = ''abcdefghijklmnopqrstuvwxyz''"

definition upperLetters :: string where
  "upperLetters = ''ABCDEFGHIJKLMNOPQRSTUVWXYZ''"

definition upperChar :: "char \<Rightarrow> char" where
  "upperChar c = (case map_of (zip lowerLetters upperLetters) c of Some u \<Rightarrow> u | None \<Rightarrow> c)"

definition lowerChar :: "char \<Rightarrow> char" where
  "lowerChar c = (case map_of (zip upperLetters lowerLetters) c of Some l \<Rightarrow> l | None \<Rightarrow> c)"

definition toUpperCase :: "string \<Rightarrow> string" where
  "toUpperCase s = map upperChar s"

definition toLowerCase :: "string \<Rightarrow> string" where
  "toLowerCase s = map lowerChar s"

definition trimStart :: "string \<Rightarrow> string" where
  "trimStart s = dropWhile isSpace s"

definition trim :: "string \<Rightarrow> string" where
  "trim s = rev (dropWhile isSpace (rev (dropWhile isSpace s)))"

text \<open>\<open>s.split(sep)\<close> for a one-character separator: always at least one piece.\<close>

fun split :: "char \<Rightarrow> string \<Rightarrow> string list" where
  "split sep [] = [[]]"
| "split sep (c # cs) =
     (if c = sep then [] # split sep cs
      else (case split sep cs of p # ps \<Rightarrow> (c # p) # ps | [] \<Rightarrow> [[c]]))"

text \<open>\<open>xs.join(sep)\<close>.\<close>

fun join :: "string \<Rightarrow> string list \<Rightarrow> string" where
  "join sep [] = []"
| "join sep [x] = x"
| "join sep (x # y # ys) = x @ sep @ join sep (y # ys)"

fun startsWith :: "string \<Rightarrow> string \<Rightarrow> bool" where
  "startsWith s [] = True"
| "startsWith [] (p # ps) = False"
| "startsWith (c # cs) (p # ps) = (c = p \<and> startsWith cs ps)"

definition endsWith :: "string \<Rightarrow> string \<Rightarrow> bool" where
  "endsWith s p = startsWith (rev s) (rev p)"

definition normalizeSymbol :: "string \<Rightarrow> string" where
  "normalizeSymbol symbol = toUpperCase (trim symbol)"

section \<open>Numbers\<close>

text \<open>
  A JavaScript number is modelled by its exact value: a finite number is a rational, and
  the three values that \<open>Number.isFinite\<close> rejects are kept apart. Results whose magnitude
  reaches the overflow threshold of binary64 become infinite; the rounding of finite
  results to 53 bits and the sign of zero are not part of the model.
\<close>

datatype number = Fin rat | PosInf | NegInf | NaN

definition overflowBound :: rat where
  "overflowBound = 2 ^ 1024 - 2 ^ 970"

definition toNumber :: "rat \<Rightarrow> number" where
  "toNumber q = (if overflowBound \<le> q then PosInf
                 else if q \<le> - overflowBound then NegInf else Fin q)"

definition isFinite :: "number \<Rightarrow> bool" where
  "isFinite x = (case x of Fin _ \<Rightarrow> True | _ \<Rightarrow> False)"

fun numSign :: "number \<Rightarrow> int" where
  "numSign (Fin q) = (if q < 0 then -1 else if q = 0 then 0 else 1)"
| "numSign PosInf = 1"
| "numSign NegInf = -1"
| "numSign NaN = 0"

definition infOfSign :: "int \<Rightarrow> number" where
  "infOfSign s = (if s < 0 then NegInf else if s = 0 then NaN else PosInf)"

text \<open>The operators \<open>*\<close>, \<open>+\<close> and \<open>/\<close> on numbers.\<close>

fun numMul :: "number \<Rightarrow> number \<Rightarrow> number" where
  "numMul NaN _ = NaN"
| "numMul _ NaN = NaN"
| "numMul (Fin a) (Fin b) = toNumber (a * b)"
| "numMul x y = infOfSign (numSign x * numSign y)"

fun numAdd :: "number \<Rightarrow> number \<Rightarrow> number" where
  "numAdd NaN _ = NaN"
| "numAdd _ NaN = NaN"
| "numAdd (Fin a) (Fin b) = toNumber (a + b)"
| "numAdd PosInf NegInf = NaN"
| "numAdd NegInf PosInf = NaN"
| "numAdd PosInf _ = PosInf"
| "numAdd _ PosInf = PosInf"
| "numAdd NegInf _ = NegInf"
| "numAdd _ NegInf = NegInf"

fun numDiv :: "number \<Rightarrow> number \<Rightarrow> number" where
  "numDiv NaN _ = NaN"
| "numDiv _ NaN = NaN"
| "numDiv (Fin a) (Fin b) = (if b = 0 then infOfSign (numSign (Fin a)) else toNumber (a / b))"
| "numDiv (Fin a) _ = Fin 0"
| "numDiv x (Fin b) = infOfSign (numSign x * (if b < 0 then -1 else 1))"
| "numDiv _ _ = NaN"

text \<open>\<open>x > 0\<close>.\<close>

fun gtZero :: "number \<Rightarrow> bool" where
  "gtZero (Fin q) = (0 < q)"
| "gtZero PosInf = True"
| "gtZero _ = False"

text \<open>Truthiness of a number: \<open>0\<close> and \<open>NaN\<close> are falsy.\<close>

fun truthy :: "number \<Rightarrow> bool" where
  "truthy (Fin q) = (q \<noteq> 0)"
| "truthy NaN = False"
| "truthy _ = True"

subsection \<open>parseFloat and parseNumber\<close>

definition digitsVal :: "string \<Rightarrow> nat" where
  "digitsVal ds = foldl (\<lambda>a c. 10 * a + digitVal c) 0 ds"

definition pow10 :: "int \<Rightarrow> rat" where
  "pow10 k = (if 0 \<le> k then 10 ^ nat k else 1 / 10 ^ nat (- k))"

text \<open>
  The exponent part of a decimal literal, read only when it is complete (\<open>e\<close> or \<open>E\<close>, an
  optional sign, at least one digit); otherwise the literal ends before it.
\<close>

definition exponentPart :: "string \<Rightarrow> int" where
  "exponentPart r =
     (case r of
        [] \<Rightarrow> 0
      | c # r1 \<Rightarrow>
          if c = CHR ''e'' \<or> c = CHR ''E'' then
            (case r1 of
               [] \<Rightarrow> 0
             | d # r2 \<Rightarrow>
                 if d = CHR ''-'' then
                   (if takeWhile isDigit r2 = [] then 0 else - int (digitsVal (takeWhile isDigit r2)))
                 else if d = CHR ''+'' then int (digitsVal (takeWhile isDigit r2))
                 else int (digitsVal (takeWhile isDigit r1)))
          else 0)"

text \<open>
  The unsigned part: \<open>Infinity\<close>, or digits with an optional fraction and exponent, or a
  fraction that starts with the point. No such prefix gives \<open>NaN\<close>.
\<close>

definition unsignedLiteral :: "string \<Rightarrow> number" where
  "unsignedLiteral u =
     (if startsWith u ''Infinity'' then PosInf
      else
        let ip = takeWhile isDigit u; r1 = dropWhile isDigit u in
        (case r1 of
           c # r \<Rightarrow>
             if c = CHR ''.'' then
               (let fp = takeWhile isDigit r; r2 = dropWhile isDigit r in
                if ip = [] \<and> fp = [] then NaN
                else toNumber (of_nat (digitsVal (ip @ fp))
                               * pow10 (exponentPart r2 - int (length fp))))
             else if ip = [] then NaN
             else toNumber (of_nat (digitsVal ip) * pow10 (exponentPart r1))
         | [] \<Rightarrow> if ip = [] then NaN else toNumber (of_nat (digitsVal ip))))"

fun numNeg :: "number \<Rightarrow> number" where
  "numNeg (Fin q) = Fin (- q)"
| "numNeg PosInf = NegInf"
| "numNeg NegInf = PosInf"
| "numNeg NaN = NaN"

text \<open>\<open>Number.parseFloat\<close>: leading white space is skipped, then the longest prefix that
  is a decimal literal is read.\<close>

definition parseFloat :: "string \<Rightarrow> number" where
  "parseFloat s =
     (case trimStart s of
        [] \<Rightarrow> NaN
      | c # r \<Rightarrow>
          if c = CHR ''-'' then numNeg (unsignedLiteral r)
          else if c = CHR ''+'' then unsignedLiteral r
          else unsignedLiteral (c # r))"

text \<open>The first replacement removes every character of the class \<open>[$,%\s]\<close>, the second
  every comma that is left.\<close>

definition stripClass :: "char \<Rightarrow> bool" where
  "stripClass c = (c = CHR ''$'' \<or> c = CHR '','' \<or> c = CHR ''%'' \<or> isSpace c)"

definition cleaned :: "string \<Rightarrow> string" where
  "cleaned v = filter (\<lambda>c. c \<noteq> CHR '','') (filter (\<lambda>c. \<not> stripClass c) v)"

text \<open>\<open>parseNumber\<close>: the argument is a string, \<open>null\<close> or \<open>undefined\<close> (\<open>None\<close>); the result
  is a finite number or \<open>null\<close> (\<open>None\<close>).\<close>

definition parseNumber :: "string option \<Rightarrow> rat option" where
  "parseNumber v =
     (case v of
        None \<Rightarrow> None
      | Some s \<Rightarrow>
          if s = [] then None
          else (case parseFloat (cleaned s) of Fin q \<Rightarrow> Some q | _ \<Rightarrow> None))"

subsection \<open>formatNumber\<close>

text \<open>
  \<open>Intl.NumberFormat("en-US", {minimumFractionDigits: d, maximumFractionDigits: d})\<close>:
  the value rounded to \<open>d\<close> fraction digits (halves away from zero), the integer part in
  groups of three separated by commas, a minus sign for a negative value.
\<close>

definition digitChar :: "nat \<Rightarrow> char" where
  "digitChar n = ''0123456789'' ! n"

fun showNat :: "nat \<Rightarrow> string" where
  "showNat n = (if n < 10 then [digitChar n] else showNat (n div 10) @ [digitChar (n mod 10)])"

declare showNat.simps [simp del]

fun groupRev :: "string \<Rightarrow> string" where
  "groupRev (a # b # c # d # r) = a # b # c # CHR '','' # groupRev (d # r)"
| "groupRev r = r"

definition grouped :: "string \<Rightarrow> string" where
  "grouped ds = rev (groupRev (rev ds))"

definition padZeros :: "nat \<Rightarrow> string \<Rightarrow> string" where
  "padZeros d s = replicate (d - length s) (CHR ''0'') @ s"

definition infinitySign :: string where
  \<comment> \<open>the sign U+221E, in UTF-8\<close>
  "infinitySign = [CHR 0xE2, CHR 0x88, CHR 0x9E]"

definition formatNumber :: "number \<Rightarrow> nat \<Rightarrow> string" where
  "formatNumber v fractionDigits =
     (case v of
        NaN \<Rightarrow> ''NaN''
      | PosInf \<Rightarrow> infinitySign
      | NegInf \<Rightarrow> CHR ''-'' # infinitySign
      | Fin q \<Rightarrow>
          let n = nat \<lfloor>\<bar>q\<bar> * 10 ^ fractionDigits + 1 / 2\<rfloor>;
              ip = n div 10 ^ fractionDigits;
              fp = n mod 10 ^ fractionDigits
          in (if q < 0 then ''-'' else []) @ grouped (showNat ip)
             @ (if fractionDigits = 0 then [] else CHR ''.'' # padZeros fractionDigits (showNat fp)))"

section \<open>Quotes\<close>

record Quote =
  symbol :: string
  shortName :: "string option"
  longName :: "string option"
  currency :: "string option"
  bid :: "number option"
  ask :: "number option"
  regularMarketPrice :: "number option"
  regularMarketPreviousClose :: "number option"
  regularMarketDayLow :: "number option"
  regularMarketDayHigh :: "number option"
  fiftyTwoWeekLow :: "number option"
  fiftyTwoWeekHigh :: "number option"
  marketCap :: "number option"
  regularMarketVolume :: "number option"
  regularMarketTime :: "number option"

text \<open>\<open>a ?? b\<close>: the left operand unless it is \<open>null\<close> or \<open>undefined\<close>.\<close>

definition orElse :: "'a option \<Rightarrow> 'a option \<Rightarrow> 'a option" where
  "orElse a b = (case a of Some x \<Rightarrow> Some x | None \<Rightarrow> b)"

text \<open>\<open>quote.regularMarketPrice ?? quote.ask ?? quote.bid ??
  quote.regularMarketPreviousClose ?? null\<close>.\<close>

definition quotePrice :: "Quote \<Rightarrow> number option" where
  "quotePrice q =
     orElse (regularMarketPrice q)
       (orElse (ask q) (orElse (bid q) (orElse (regularMarketPreviousClose q) None)))"

type_synonym QuoteMap = "string \<rightharpoonup> Quote"

section \<open>Regular expressions\<close>

text \<open>
  The separator test is a regular expression anchored at both ends, so \<open>test\<close> asks whether
  the whole line belongs to its language. The expression is kept as a syntax tree and
  matched by derivatives.
\<close>

datatype rexp =
    Empty
  | Eps
  | Chr char
  | Space
  | Alt rexp rexp
  | Seq rexp rexp
  | Star rexp

definition Opt :: "rexp \<Rightarrow> rexp" where
  "Opt r = Alt r Eps"

definition Plus :: "rexp \<Rightarrow> rexp" where
  "Plus r = Seq r (Star r)"

fun nullable :: "rexp \<Rightarrow> bool" where
  "nullable Empty = False"
| "nullable Eps = True"
| "nullable (Chr c) = False"
| "nullable Space = False"
| "nullable (Alt r s) = (nullable r \<or> nullable s)"
| "nullable (Seq r s) = (nullable r \<and> nullable s)"
| "nullable (Star r) = True"

fun alt :: "rexp \<Rightarrow> rexp \<Rightarrow> rexp" where
  "alt Empty s = s"
| "alt r Empty = r"
| "alt r s = Alt r s"

fun seq :: "rexp \<Rightarrow> rexp \<Rightarrow> rexp" where
  "seq Empty s = Empty"
| "seq r Empty = Empty"
| "seq Eps s = s"
| "seq r s = Seq r s"

fun deriv :: "char \<Rightarrow> rexp \<Rightarrow> rexp" where
  "deriv c Empty = Empty"
| "deriv c Eps = Empty"
| "deriv c (Chr d) = (if c = d then Eps else Empty)"
| "deriv c Space = (if isSpace c then Eps else Empty)"
| "deriv c (Alt r s) = alt (deriv c r) (deriv c s)"
| "deriv c (Seq r s) =
     (if nullable r then alt (seq (deriv c r) s) (deriv c s) else seq (deriv c r) s)"
| "deriv c (Star r) = seq (deriv c r) (Star r)"

fun matches :: "rexp \<Rightarrow> string \<Rightarrow> bool" where
  "matches r [] = nullable r"
| "matches r (c # cs) = matches (deriv c r) cs"

section \<open>The Markdown table\<close>

text \<open>\<open>:?-{3,}:?\s*\<close>, the part of the separator pattern that stands for one column.\<close>

definition dashCell :: rexp where
  "dashCell =
     Seq (Opt (Chr CHR '':''))
       (Seq (Seq (Chr CHR ''-'') (Seq (Chr CHR ''-'') (Seq (Chr CHR ''-'') (Star (Chr CHR ''-'')))))
         (Seq (Opt (Chr CHR '':'')) (Star Space)))"

text \<open>\<open>^\s*\|?\s*:?-{3,}:?\s*(\|\s*:?-{3,}:?\s*)+\|?\s*$\<close>\<close>

definition separatorPattern :: rexp where
  "separatorPattern =
     Seq (Star Space)
       (Seq (Opt (Chr CHR ''|''))
         (Seq (Star Space)
           (Seq dashCell
             (Seq (Plus (Seq (Chr CHR ''|'') (Seq (Star Space) dashCell)))
               (Seq (Opt (Chr CHR ''|'')) (Star Space))))))"

definition isTableSeparator :: "string \<Rightarrow> bool" where
  "isTableSeparator line = matches separatorPattern line"

definition isTableRow :: "string \<Rightarrow> bool" where
  "isTableRow line = (CHR ''|'' \<in> set line \<and> \<not> list_all isSpace line)"

definition splitRow :: "string \<Rightarrow> string list" where
  "splitRow line =
     (let trimmed = trim line;
          trimmed1 = (if startsWith trimmed ''|'' then drop 1 trimmed else trimmed);
          trimmed2 = (if endsWith trimmed1 ''|'' then butlast trimmed1 else trimmed1)
      in map trim (split CHR ''|'' trimmed2))"

text \<open>
  The scan for the first line \<open>i\<close> that is a table row followed by a separator line; the
  last line is never a candidate.
\<close>

fun findTableStart :: "nat \<Rightarrow> string list \<Rightarrow> nat option" where
  "findTableStart i (l # s # rest) =
     (if isTableRow l \<and> isTableSeparator s then Some i
      else findTableStart (Suc i) (s # rest))"
| "findTableStart i [l] = None"
| "findTableStart i [] = None"

text \<open>The test of the scan at line \<open>i\<close>, with the bound of the loop:
  \<open>i < lines.length - 1 && isTableRow(lines[i]) && isTableSeparator(lines[i + 1])\<close>.\<close>

definition tableStartsAt :: "string list \<Rightarrow> nat \<Rightarrow> bool" where
  "tableStartsAt lines i =
     (i + 1 < length lines \<and> isTableRow (lines ! i) \<and> isTableSeparator (lines ! (i + 1)))"

text \<open>From \<open>tableStart + 2\<close> the table runs on while the lines are table rows; \<open>tableEnd\<close>
  is the index of the last of them (of the separator when there is none).\<close>

definition locateTable :: "string list \<Rightarrow> (nat \<times> nat) option" where
  "locateTable lines =
     (case findTableStart 0 lines of
        None \<Rightarrow> None
      | Some tableStart \<Rightarrow>
          Some (tableStart,
                tableStart + 1 + length (takeWhile isTableRow (drop (tableStart + 2) lines))))"

text \<open>\<open>xs.slice(a, b)\<close> for \<open>0 \<le> a\<close>, \<open>0 \<le> b\<close>.\<close>

definition slice :: "'a list \<Rightarrow> nat \<Rightarrow> nat \<Rightarrow> 'a list" where
  "slice xs a b = take (b - a) (drop a xs)"

text \<open>\<open>findIndex\<close>, with \<open>None\<close> for \<open>-1\<close>.\<close>

fun findIndex :: "('a \<Rightarrow> bool) \<Rightarrow> 'a list \<Rightarrow> nat option" where
  "findIndex p [] = None"
| "findIndex p (x # xs) = (if p x then Some 0 else map_option Suc (findIndex p xs))"

definition headerIndex :: "string list \<Rightarrow> string list \<Rightarrow> nat option" where
  "headerIndex header names = findIndex (\<lambda>h. toLowerCase (trim h) \<in> set names) header"

definition tickerNames :: "string list" where
  "tickerNames = [''fund'', ''ticker'', ''symbol'', ''fund/ticker'']"

definition sharesNames :: "string list" where
  "sharesNames = [''shares'', ''qty'', ''quantity'', ''units'']"

definition priceNames :: "string list" where
  "priceNames = [''current price'', ''price'', ''last price'']"

definition valueNames :: "string list" where
  "valueNames = [''value'', ''market value'']"

definition allocationNames :: "string list" where
  "allocationNames = [''allocation'', ''allocation %'', ''alloc %'']"

text \<open>\<open>row[i]\<close>: \<open>undefined\<close> (\<open>None\<close>) beyond the end of the row.\<close>

definition cellAt :: "string list \<Rightarrow> nat \<Rightarrow> string option" where
  "cellAt row i = (if i < length row then Some (row ! i) else None)"

text \<open>\<open>row[i] = v\<close>: an assignment beyond the end would extend the row, the cells in
  between being holes, which \<open>join\<close> renders as empty strings.\<close>

definition setCell :: "string list \<Rightarrow> nat \<Rightarrow> string \<Rightarrow> string list" where
  "setCell row i v =
     (if i < length row then row[i := v] else row @ replicate (i - length row) [] @ [v])"

text \<open>\<open>while (row.length < header.length) row.push("")\<close>\<close>

definition padRow :: "nat \<Rightarrow> string list \<Rightarrow> string list" where
  "padRow n row = row @ replicate (n - length row) []"

section \<open>Reconciliation\<close>

text \<open>
  One step of \<open>dataRows.map\<close>: the padded and updated row, and what is stored in
  \<open>rowValues[rowIndex]\<close> (\<open>None\<close> when nothing is stored, which leaves a hole).
\<close>

definition updateRow ::
  "nat \<Rightarrow> nat \<Rightarrow> nat \<Rightarrow> nat option \<Rightarrow> nat option \<Rightarrow> QuoteMap \<Rightarrow> string list
     \<Rightarrow> string list \<times> number option" where
  "updateRow headerLength tickerIndex sharesIndex priceIndex valueIndex quotes row =
     (let row1 = padRow headerLength row;
          symbol = normalizeSymbol (case cellAt row1 tickerIndex of Some c \<Rightarrow> c | None \<Rightarrow> [])
      in case quotes symbol of
           None \<Rightarrow> (row1, None)
         | Some quote \<Rightarrow>
             let price = quotePrice quote;
                 shares = parseNumber (cellAt row1 sharesIndex);
                 value = (case price of
                            None \<Rightarrow> None
                          | Some p \<Rightarrow> (case shares of None \<Rightarrow> None | Some s \<Rightarrow> Some (numMul p (Fin s))));
                 row2 = (case priceIndex of
                           None \<Rightarrow> row1
                         | Some i \<Rightarrow> (case price of None \<Rightarrow> row1
                                     | Some p \<Rightarrow> setCell row1 i (formatNumber p 2)));
                 row3 = (case valueIndex of
                           None \<Rightarrow> row2
                         | Some i \<Rightarrow> (case value of None \<Rightarrow> row2
                                     | Some v \<Rightarrow> setCell row2 i (formatNumber v 2)))
             in (row3, Some (case value of Some v \<Rightarrow> v | None \<Rightarrow> Fin 0)))"

text \<open>\<open>rowValues.reduce((sum, v) => sum + v, 0)\<close>; \<open>reduce\<close> passes over holes.\<close>

definition sumRowValues :: "number option list \<Rightarrow> number" where
  "sumRowValues rowValues =
     foldl (\<lambda>sum v. case v of None \<Rightarrow> sum | Some x \<Rightarrow> numAdd sum x) (Fin 0) rowValues"

text \<open>\<open>rowValues[rowIndex] ?? 0\<close>\<close>

definition rowValue :: "number option \<Rightarrow> number" where
  "rowValue v = (case v of Some x \<Rightarrow> x | None \<Rightarrow> Fin 0)"

definition allocationOf :: "number \<Rightarrow> number \<Rightarrow> string" where
  "allocationOf totalValue v = formatNumber (numMul (numDiv v totalValue) (Fin 100)) 2"

text \<open>
  The engine between the fetch and the serialisation: every row is updated, then, when
  there is an allocation column and the total is positive, the allocation cell of every
  row is written.
\<close>

definition reconcile ::
  "nat \<Rightarrow> nat \<Rightarrow> nat \<Rightarrow> nat option \<Rightarrow> nat option \<Rightarrow> nat option \<Rightarrow> QuoteMap
     \<Rightarrow> string list list \<Rightarrow> string list list" where
  "reconcile headerLength tickerIndex sharesIndex priceIndex valueIndex allocationIndex quotes dataRows =
     (let updated = map (updateRow headerLength tickerIndex sharesIndex priceIndex valueIndex quotes)
                      dataRows;
          updatedRows = map fst updated;
          rowValues = map snd updated;
          totalValue = sumRowValues rowValues
      in case allocationIndex of
           None \<Rightarrow> updatedRows
         | Some ai \<Rightarrow>
             if gtZero totalValue
             then map (\<lambda>(row, v). setCell row ai (allocationOf totalValue (rowValue v))) updated
             else updatedRows)"


definition serializeRow :: "string list \<Rightarrow> string" where
  "serializeRow cells = ''| '' @ join '' | '' cells @ '' |''"

section \<open>The command\<close>

text \<open>
  The editor is read through \<open>getSelection\<close> and \<open>getValue\<close>; what the command does to it
  is recorded as the call it makes (none when it returns early), beside the notice shown.
  The quotes come from \<open>fetchQuotes\<close>, which either throws or returns a map.
\<close>

record Editor =
  getSelection :: string
  getValue :: string

datatype Edit = ReplaceSelection string | SetValue string

datatype Notice = Notice string nat

record Outcome =
  notice :: Notice
  edit :: "Edit option"

datatype Thrown = ErrorObj string | OtherValue string

definition newline :: char where
  "newline = CHR 0x0A"

text \<open>\<open>dataRows.map((row) => row[tickerIndex]).filter(Boolean).map(normalizeSymbol)\<close>\<close>

definition tableSymbols :: "nat \<Rightarrow> string list list \<Rightarrow> string list" where
  "tableSymbols tickerIndex dataRows =
     map normalizeSymbol
       (filter (\<lambda>c. c \<noteq> []) (List.map_filter (\<lambda>row. cellAt row tickerIndex) dataRows))"

text \<open>The rebuilt table between the lines before \<open>tableStart\<close> and those after
  \<open>tableEnd\<close>, joined with newlines.\<close>

definition spliceTable ::
  "string list \<Rightarrow> nat \<Rightarrow> nat \<Rightarrow> string list \<Rightarrow> string list list \<Rightarrow> string" where
  "spliceTable lines tableStart tableEnd header updatedRows =
     (let updatedTableLines =
            [serializeRow header, lines ! (tableStart + 1)] @ map serializeRow updatedRows;
          before = slice lines 0 tableStart;
          after = drop (tableEnd + 1) lines
      in join [newline] (before @ updatedTableLines @ after))"

definition successNotice :: "nat option \<Rightarrow> nat option \<Rightarrow> Notice" where
  "successNotice priceIndex allocationIndex =
     (let missingColumns =
            (if priceIndex = None then [''Current Price''] else [])
            @ (if allocationIndex = None then [''Allocation''] else [])
      in if missingColumns \<noteq> []
         then Notice (''Updated table. Add column(s): '' @ join '', '' missingColumns
                      @ '' to populate them.'') 8000
         else Notice ''Updated portfolio table'' 3000)"

definition requiredColumnsNotice :: Notice where
  "requiredColumnsNotice =
     Notice ''Table must include a Ticker/Fund column and a Shares column'' 7000"

text \<open>The part of the command that follows the check of the required columns.\<close>

definition updateLocatedTable ::
  "(string list \<Rightarrow> Thrown + QuoteMap) \<Rightarrow> string \<Rightarrow> string list \<Rightarrow> nat \<Rightarrow> nat
     \<Rightarrow> string list \<Rightarrow> nat \<Rightarrow> nat \<Rightarrow> Outcome" where
  "updateLocatedTable fetchQuotes selection lines tableStart tableEnd header tickerIndex sharesIndex =
     (let priceIndex = headerIndex header priceNames;
          valueIndex = headerIndex header valueNames;
          allocationIndex = headerIndex header allocationNames;
          dataRows = map splitRow (slice lines (tableStart + 2) (tableEnd + 1));
          symbols = tableSymbols tickerIndex dataRows
      in if symbols = []
         then \<lparr>notice = Notice ''No tickers found in the table'' 5000, edit = None\<rparr>
         else
           (case fetchQuotes symbols of
              Inl e \<Rightarrow>
                \<lparr>notice = Notice ''Error: couldn't retrieve stock information'' 15000, edit = None\<rparr>
            | Inr quotes \<Rightarrow>
                (let updatedRows = reconcile (length header) tickerIndex sharesIndex priceIndex
                                     valueIndex allocationIndex quotes dataRows;
                     updatedText = spliceTable lines tableStart tableEnd header updatedRows
                 in \<lparr>notice = successNotice priceIndex allocationIndex,
                     edit = Some (if selection \<noteq> [] then ReplaceSelection updatedText
                                  else SetValue updatedText)\<rparr>)))"

definition updatePortfolioTable ::
  "(string list \<Rightarrow> Thrown + QuoteMap) \<Rightarrow> Editor option \<Rightarrow> Outcome" where
  "updatePortfolioTable fetchQuotes editor =
     (case editor of
        None \<Rightarrow> \<lparr>notice = Notice ''No active markdown editor'' 5000, edit = None\<rparr>
      | Some ed \<Rightarrow>
          (let selection = getSelection ed;
               targetText = (if selection \<noteq> [] then selection else getValue ed);
               lines = split newline targetText
           in (case locateTable lines of
                 None \<Rightarrow> \<lparr>notice = Notice ''No markdown table found'' 5000, edit = None\<rparr>
               | Some (tableStart, tableEnd) \<Rightarrow>
                   (let header = splitRow (lines ! tableStart)
                    in (case headerIndex header tickerNames of
                          None \<Rightarrow> \<lparr>notice = requiredColumnsNotice, edit = None\<rparr>
                        | Some tickerIndex \<Rightarrow>
                            (case headerIndex header sharesNames of
                               None \<Rightarrow> \<lparr>notice = requiredColumnsNotice, edit = None\<rparr>
                             | Some sharesIndex \<Rightarrow>
                                 updateLocatedTable fetchQuotes selection lines tableStart tableEnd
                                   header tickerIndex sharesIndex))))))"

section \<open>Example data\<close>

text \<open>A quote that carries a price and nothing else.\<close>

definition priceQuote :: "string \<Rightarrow> rat \<Rightarrow> Quote" where
  "priceQuote s p =
     \<lparr>symbol = s, shortName = None, longName = None, currency = None, bid = None, ask = None,
      regularMarketPrice = Some (Fin p), regularMarketPreviousClose = None,
      regularMarketDayLow = None, regularMarketDayHigh = None, fiftyTwoWeekLow = None,
      fiftyTwoWeekHigh = None, marketCap = None, regularMarketVolume = None,
      regularMarketTime = None\<rparr>"



definition exampleLines :: "string list" where
  "exampleLines = [''Portfolio'', ''|Ticker|Shares|'', ''|---|---|'', ''|AAPL|10|'', '''', ''end'']"

text \<open>A document whose table has no shares column.\<close>

definition noSharesEditor :: Editor where
  "noSharesEditor =
     \<lparr>getSelection = [], getValue = ''|Ticker|Price|\<newline>|---|---|\<newline>|AAPL|1|''\<rparr>"

section \<open>Rendering one quote\<close>

text \<open>
  Two conversions of the host depend on the binary representation of numbers or on the
  time zone and are parameters of the model: the string of a number that is not an integer
  below \<open>10^21\<close> in magnitude, and the string of a \<open>Date\<close>.
\<close>

record Host =
  otherNumberString :: "rat \<Rightarrow> string"
  dateString :: "number \<Rightarrow> string"

text \<open>\<open>String(x)\<close> and \<open>"" + x\<close> for a number.\<close>

definition numberToString :: "Host \<Rightarrow> number \<Rightarrow> string" where
  "numberToString host x =
     (case x of
        NaN \<Rightarrow> ''NaN''
      | PosInf \<Rightarrow> ''Infinity''
      | NegInf \<Rightarrow> ''-Infinity''
      | Fin q \<Rightarrow>
          if of_int \<lfloor>q\<rfloor> = q \<and> \<bar>q\<bar> < 10 ^ 21
          then (if q < 0 then ''-'' else []) @ showNat (nat \<bar>\<lfloor>q\<rfloor>\<bar>)
          else otherNumberString host q)"

definition numSub :: "number \<Rightarrow> number \<Rightarrow> number" where
  "numSub a b = numAdd a (numNeg b)"

text \<open>\<open>x < y\<close> and \<open>x >= y\<close> on numbers; both are false when an operand is \<open>NaN\<close>.\<close>

fun numLess :: "number \<Rightarrow> number \<Rightarrow> bool" where
  "numLess NaN y = False"
| "numLess x NaN = False"
| "numLess (Fin a) (Fin b) = (a < b)"
| "numLess (Fin a) PosInf = True"
| "numLess (Fin a) NegInf = False"
| "numLess PosInf y = False"
| "numLess NegInf NegInf = False"
| "numLess NegInf y = True"

definition numGeq :: "number \<Rightarrow> number \<Rightarrow> bool" where
  "numGeq x y = (x \<noteq> NaN \<and> y \<noteq> NaN \<and> \<not> numLess x y)"

text \<open>\<open>x.toFixed(d)\<close>: a magnitude of \<open>10^21\<close> or more, and a value that is not finite, is
  printed as \<open>String(x)\<close>; otherwise the value is rounded to \<open>d\<close> fraction digits, a tie
  going to the larger magnitude.\<close>

definition toFixed :: "Host \<Rightarrow> number \<Rightarrow> nat \<Rightarrow> string" where
  "toFixed host x d =
     (case x of
        Fin q \<Rightarrow>
          if 10 ^ 21 \<le> \<bar>q\<bar> then numberToString host x
          else
            let n = nat \<lfloor>\<bar>q\<bar> * 10 ^ d + 1 / 2\<rfloor>
            in (if q < 0 then ''-'' else []) @ showNat (n div 10 ^ d)
               @ (if d = 0 then [] else CHR ''.'' # padZeros d (showNat (n mod 10 ^ d)))
      | PosInf \<Rightarrow> numberToString host x
      | NegInf \<Rightarrow> numberToString host x
      | NaN \<Rightarrow> numberToString host x)"

text \<open>\<open>+x.toFixed(d)\<close>: the number that the string of \<open>toFixed\<close> denotes.\<close>

definition toFixedNumber :: "number \<Rightarrow> nat \<Rightarrow> number" where
  "toFixedNumber x d =
     (case x of
        Fin q \<Rightarrow>
          if 10 ^ 21 \<le> \<bar>q\<bar> then x
          else Fin ((if q < 0 then - 1 else 1) * of_nat (nat \<lfloor>\<bar>q\<bar> * 10 ^ d + 1 / 2\<rfloor>) / 10 ^ d)
      | PosInf \<Rightarrow> x
      | NegInf \<Rightarrow> x
      | NaN \<Rightarrow> x)"

text \<open>\<open>formatLongNumber\<close>; \<open>None\<close> is \<open>undefined\<close>, returned when no test holds.\<close>

definition formatLongNumber :: "Host \<Rightarrow> number \<Rightarrow> string option" where
  "formatLongNumber host n =
     (if numLess n (Fin (10 ^ 9))
      then Some (numberToString host (toFixedNumber (numDiv n (Fin (10 ^ 6))) 3) @ ''M'')
      else if numGeq n (Fin (10 ^ 9)) \<and> numLess n (Fin (10 ^ 12))
      then Some (numberToString host (toFixedNumber (numDiv n (Fin (10 ^ 9))) 3) @ ''B'')
      else if numGeq n (Fin (10 ^ 12))
      then Some (numberToString host (toFixedNumber (numDiv n (Fin (10 ^ 12))) 1) @ ''T'')
      else None)"

text \<open>\<open>x.toLocaleString("en-US")\<close>: grouped integer part and at most three fraction
  digits, without trailing zeros.\<close>

definition dropTrailingZeros :: "string \<Rightarrow> string" where
  "dropTrailingZeros s = rev (dropWhile (\<lambda>c. c = CHR ''0'') (rev s))"

definition toLocaleString :: "number \<Rightarrow> string" where
  "toLocaleString x =
     (case x of
        NaN \<Rightarrow> ''NaN''
      | PosInf \<Rightarrow> infinitySign
      | NegInf \<Rightarrow> CHR ''-'' # infinitySign
      | Fin q \<Rightarrow>
          let n = nat \<lfloor>\<bar>q\<bar> * 1000 + 1 / 2\<rfloor>;
              fraction = dropTrailingZeros (padZeros 3 (showNat (n mod 1000)))
          in (if q < 0 then ''-'' else []) @ grouped (showNat (n div 1000))
             @ (if fraction = [] then [] else CHR ''.'' # fraction))"

text \<open>Truthiness of an optional number and of an optional string: absent values, \<open>0\<close>,
  \<open>NaN\<close> and the empty string are falsy.\<close>

definition truthyNumber :: "number option \<Rightarrow> bool" where
  "truthyNumber v = (case v of None \<Rightarrow> False | Some x \<Rightarrow> truthy x)"

definition truthyString :: "string option \<Rightarrow> bool" where
  "truthyString v = (case v of None \<Rightarrow> False | Some s \<Rightarrow> s \<noteq> [])"

definition enDash :: string where
  \<comment> \<open>the dash U+2013, in UTF-8\<close>
  "enDash = [CHR 0xE2, CHR 0x80, CHR 0x93]"

text \<open>The parts of the callout, one for each conditional of \<open>onSubmit\<close>. The arguments are
  the local constants of the same names (primed where the name is that of a field).\<close>

definition subtitle ::
  "Host \<Rightarrow> number option \<Rightarrow> number option \<Rightarrow> number option \<Rightarrow> number option \<Rightarrow> string" where
  "subtitle host bid' ask' previousClose price =
     (if truthyNumber bid' \<and> truthyNumber ask'
      then ''(Bid: '' @ numberToString host (the bid') @ '', Ask: '' @ numberToString host (the ask')
           @ '', Spread: ''
           @ toFixed host (numMul (numDiv (numSub (the ask') (the bid')) (the ask')) (Fin 100)) 3
           @ ''%)''
      else if truthyNumber previousClose
      then ''(Previous close: '' @ numberToString host (the previousClose) @ '')''
      else if truthyNumber price
      then ''(Price: '' @ numberToString host (the price) @ '')''
      else [])"

definition nameLine :: "string option \<Rightarrow> string" where
  "nameLine name = (if truthyString name then ''\<newline>> **Name:** '' @ the name else [])"

definition currencyLine :: "string option \<Rightarrow> string" where
  "currencyLine currency' =
     (if truthyString currency' then ''\<newline>> **Currency:** '' @ the currency' else [])"

definition volumeLine :: "number option \<Rightarrow> string" where
  "volumeLine volume =
     (if truthyNumber volume then ''\<newline>> **Volume:** '' @ toLocaleString (the volume) else [])"

definition marketCapLine :: "Host \<Rightarrow> string option \<Rightarrow> number option \<Rightarrow> string" where
  "marketCapLine host currency' marketCap' =
     (if truthyString currency' \<and> truthyNumber marketCap'
      then ''\<newline>> **Market cap:** ''
           @ (case formatLongNumber host (the marketCap') of Some s \<Rightarrow> s | None \<Rightarrow> ''undefined'')
      else [])"

definition previousCloseLine :: "Host \<Rightarrow> number option \<Rightarrow> string" where
  "previousCloseLine host previousClose =
     (if truthyNumber previousClose
      then ''\<newline>> **Previous close:** '' @ numberToString host (the previousClose)
      else [])"

definition rangeLine :: "Host \<Rightarrow> string \<Rightarrow> number option \<Rightarrow> number option \<Rightarrow> string" where
  "rangeLine host label low high =
     (if truthyNumber low \<and> truthyNumber high
      then ''\<newline>> **'' @ label @ '':** '' @ numberToString host (the low)
           @ '' '' @ enDash @ '' '' @ numberToString host (the high)
      else [])"

text \<open>\<open>updated\<close> is a \<open>Date\<close> when \<open>quote.regularMarketTime\<close> is truthy and \<open>null\<close>
  otherwise; a \<open>Date\<close> is always truthy.\<close>

definition updatedLine :: "Host \<Rightarrow> number option \<Rightarrow> string" where
  "updatedLine host regularMarketTime' =
     (if truthyNumber regularMarketTime'
      then ''\<newline>>\<newline>><small>*'' @ dateString host (numMul (the regularMarketTime') (Fin 1000))
           @ ''*</small>''
      else [])"

definition calloutText :: "Host \<Rightarrow> string \<Rightarrow> Quote \<Rightarrow> string" where
  "calloutText host ticker quote =
     ''> [!info]- '' @ normalizeSymbol ticker @ '' ''
     @ subtitle host (bid quote) (ask quote) (regularMarketPreviousClose quote) (quotePrice quote)
     @ nameLine (orElse (longName quote) (shortName quote))
     @ currencyLine (currency quote)
     @ volumeLine (regularMarketVolume quote)
     @ marketCapLine host (currency quote) (marketCap quote)
     @ previousCloseLine host (regularMarketPreviousClose quote)
     @ rangeLine host ''Day range'' (regularMarketDayLow quote) (regularMarketDayHigh quote)
     @ rangeLine host ''52W range'' (fiftyTwoWeekLow quote) (fiftyTwoWeekHigh quote)
     @ updatedLine host (regularMarketTime quote)"

definition retrievalError :: Notice where
  "retrievalError = Notice ''Error: couldn't retrieve stock information'' 15000"

text \<open>The command \<open>insert-stock-info\<close>, after the modal has supplied the ticker: a notice
  when the fetch throws or finds nothing, the insertion of the callout otherwise.\<close>

definition insertStockInfo ::
  "Host \<Rightarrow> (string list \<Rightarrow> Thrown + QuoteMap) \<Rightarrow> string \<Rightarrow> Notice + Edit" where
  "insertStockInfo host fetchQuotes ticker =
     (case fetchQuotes [ticker] of
        Inl e \<Rightarrow> Inl retrievalError
      | Inr quotes \<Rightarrow>
          (case quotes (normalizeSymbol ticker) of
             None \<Rightarrow> Inl retrievalError
           | Some quote \<Rightarrow>
               Inr (ReplaceSelection (calloutText host ticker quote @ ''\<newline>\<newline>''))))"

section \<open>Extracting one field\<close>





section \<open>Fetching quotes\<close>

text \<open>
  The network is a parameter: \<open>requestUrl\<close> either rejects with the value thrown or
  resolves to a response, whose \<open>json\<close> is read through a getter that throws when the body
  is not JSON. The JSON of a response is taken to have the type that the code casts it to.
  \<open>Date.parse\<close> is the second parameter: no result (\<open>None\<close>) is \<open>NaN\<close>, and a result is a
  time value in milliseconds.
\<close>

record 'j Response =
  responseStatus :: nat
  responseText :: string
  responseJson :: "Thrown + 'j"

record 'j Env =
  requestUrl :: "string \<Rightarrow> Thrown + 'j Response"
  Date_parse :: "string \<Rightarrow> int option"

definition hexDigit :: "nat \<Rightarrow> char" where
  "hexDigit n = ''0123456789ABCDEF'' ! n"

definition unreserved :: "char \<Rightarrow> bool" where
  "unreserved c = (c \<in> set lowerLetters \<or> c \<in> set upperLetters \<or> isDigit c \<or> c \<in> set ''-_.!~*'()'')"

definition encodeURIComponent :: "string \<Rightarrow> string" where
  "encodeURIComponent s =
     concat (map (\<lambda>c. if unreserved c then [c]
                       else [CHR ''%'', hexDigit (of_char c div 16), hexDigit (of_char c mod 16)]) s)"

subsection \<open>The per-symbol provider\<close>

definition parseStooqCsvLine :: "string \<Rightarrow> string list" where
  "parseStooqCsvLine line =
     map (\<lambda>cell. if cell = ''N/A'' then [] else cell) (map trim (split CHR '','' line))"

text \<open>\<open>s.split(/\r?\n/)\<close>: a carriage return right before a newline belongs to the
  separator.\<close>

definition stripCR :: "string \<Rightarrow> string" where
  "stripCR piece = (if piece \<noteq> [] \<and> last piece = CHR 0x0D then butlast piece else piece)"

definition splitLines :: "string \<Rightarrow> string list" where
  "splitLines s = (let pieces = split newline s in map stripCR (butlast pieces) @ [last pieces])"

text \<open>The object \<open>record\<close>, filled by \<open>header.forEach\<close>: a later key overrides an earlier
  one, and a missing value is the empty string.\<close>

definition stooqRecord :: "string list \<Rightarrow> string list \<Rightarrow> (string \<rightharpoonup> string)" where
  "stooqRecord header values =
     fold (\<lambda>(key, index) record.
             record(key \<mapsto> (case cellAt values index of Some v \<Rightarrow> v | None \<Rightarrow> [])))
          (zip header [0..<length header]) Map.empty"

definition stooqUrl :: "string \<Rightarrow> string" where
  "stooqUrl candidate =
     ''https://stooq.com/q/l/?s='' @ encodeURIComponent candidate @ ''&f=sd2t2ohlcv&h&e=csv''"

text \<open>\<open>updated\<close>: the seconds of the parsed date, when there is a date and it parses.\<close>

definition stooqUpdated :: "'j Env \<Rightarrow> string option \<Rightarrow> string option \<Rightarrow> number option" where
  "stooqUpdated env datePart timePart =
     (if truthyString datePart
      then
        (let iso = (if truthyString timePart then the datePart @ ''T'' @ the timePart @ ''Z''
                    else the datePart @ ''T00:00:00Z'')
         in case Date_parse env iso of
              None \<Rightarrow> None
            | Some parsed \<Rightarrow> Some (Fin (of_int (parsed div 1000))))
      else None)"

text \<open>One pass of the loop over the candidates: \<open>None\<close> when the pass ends with
  \<open>continue\<close> or in the \<open>catch\<close>, the quote when it returns.\<close>

definition stooqAttempt :: "'j Env \<Rightarrow> string \<Rightarrow> string \<Rightarrow> Quote option" where
  "stooqAttempt env normalized candidate =
     (case requestUrl env (stooqUrl candidate) of
        Inl e \<Rightarrow> None
      | Inr response \<Rightarrow>
          (let lines = splitLines (trim (responseText response))
           in if length lines < 2 then None
              else
                (let header = parseStooqCsvLine (lines ! 0);
                     values = parseStooqCsvLine (lines ! 1);
                     record = stooqRecord header values
                 in if \<not> truthyString (record ''symbol'') \<or> \<not> truthyString (record ''close'')
                    then None
                    else
                      Some \<lparr>symbol = normalized, shortName = None, longName = None, currency = None,
                            bid = None, ask = None,
                            regularMarketPrice = map_option Fin (parseNumber (record ''close'')),
                            regularMarketPreviousClose = None,
                            regularMarketDayLow = map_option Fin (parseNumber (record ''low'')),
                            regularMarketDayHigh = map_option Fin (parseNumber (record ''high'')),
                            fiftyTwoWeekLow = None, fiftyTwoWeekHigh = None, marketCap = None,
                            regularMarketVolume = map_option Fin (parseNumber (record ''volume'')),
                            regularMarketTime =
                              stooqUpdated env (record ''date'') (record ''time'')\<rparr>)))"

fun tryCandidates :: "'j Env \<Rightarrow> string \<Rightarrow> string list \<Rightarrow> Quote option" where
  "tryCandidates env normalized [] = None"
| "tryCandidates env normalized (candidate # candidates) =
     (case stooqAttempt env normalized candidate of
        Some quote \<Rightarrow> Some quote
      | None \<Rightarrow> tryCandidates env normalized candidates)"

definition stooqCandidates :: "string \<Rightarrow> string list" where
  "stooqCandidates normalized = [toLowerCase normalized, toLowerCase normalized @ ''.us'']"

definition fetchStooqQuote :: "'j Env \<Rightarrow> string \<Rightarrow> Quote option" where
  "fetchStooqQuote env symbol' =
     (let normalized = normalizeSymbol symbol'
      in tryCandidates env normalized (stooqCandidates normalized))"

text \<open>A \<open>Map\<close> under construction is the list of its \<open>set\<close> calls, in order; it is empty
  when there was none, and a later call overrides an earlier one for the same key.\<close>

type_synonym Entries = "(string \<times> Quote) list"

definition mapOf :: "Entries \<Rightarrow> QuoteMap" where
  "mapOf entries = map_of (rev entries)"

fun fetchQuotesFromStooq :: "'j Env \<Rightarrow> string list \<Rightarrow> Entries" where
  "fetchQuotesFromStooq env [] = []"
| "fetchQuotesFromStooq env (symbol' # symbols) =
     (case fetchStooqQuote env symbol' of
        Some quote \<Rightarrow> (normalizeSymbol symbol', quote) # fetchQuotesFromStooq env symbols
      | None \<Rightarrow> fetchQuotesFromStooq env symbols)"

subsection \<open>The batch provider and the fallback\<close>

text \<open>\<open>data?.quoteResponse?.result\<close>: absent (\<open>None\<close>) or the list of the quotes, an entry
  of which may be \<open>null\<close>.\<close>

type_synonym YahooData = "Quote option list option"

definition yahooEntries :: "Quote option list \<Rightarrow> Entries" where
  "yahooEntries result =
     map (\<lambda>quote. (toUpperCase (symbol quote), quote))
       (filter (\<lambda>quote. symbol quote \<noteq> []) (List.map_filter (\<lambda>entry. entry) result))"

text \<open>The body of the \<open>try\<close> for one URL: what it throws, or the map it returns.\<close>

definition yahooAttempt :: "YahooData Env \<Rightarrow> string \<Rightarrow> Thrown + Entries" where
  "yahooAttempt env url =
     (case requestUrl env url of
        Inl e \<Rightarrow> Inl e
      | Inr response \<Rightarrow>
          (case responseJson response of
             Inl e \<Rightarrow> Inl e
           | Inr None \<Rightarrow> Inl (ErrorObj ''Unexpected response from Yahoo Finance'')
           | Inr (Some result) \<Rightarrow> Inr (yahooEntries result)))"

text \<open>The loop over the URLs, with \<open>lastError\<close> (\<open>None\<close> for \<open>null\<close>): it returns from the
  first URL that succeeds, and ends with the last value caught.\<close>

fun tryUrls :: "YahooData Env \<Rightarrow> string list \<Rightarrow> Thrown option \<Rightarrow> Thrown option + Entries" where
  "tryUrls env [] lastError = Inl lastError"
| "tryUrls env (url # urls) lastError =
     (case yahooAttempt env url of
        Inr entries \<Rightarrow> Inr entries
      | Inl e \<Rightarrow> tryUrls env urls (Some e))"

definition yahooUrls :: "string list \<Rightarrow> string list" where
  "yahooUrls cleanedSymbols =
     (let query = encodeURIComponent (join '','' cleanedSymbols)
      in [''https://query1.finance.yahoo.com/v7/finance/quote?symbols='' @ query,
          ''https://query2.finance.yahoo.com/v7/finance/quote?symbols='' @ query])"

definition cleanSymbols :: "string list \<Rightarrow> string list" where
  "cleanSymbols symbols = filter (\<lambda>s. s \<noteq> []) (map normalizeSymbol symbols)"

definition fetchQuotes :: "YahooData Env \<Rightarrow> string list \<Rightarrow> Thrown + QuoteMap" where
  "fetchQuotes env symbols =
     (let cleanedSymbols = cleanSymbols symbols
      in if cleanedSymbols = [] then Inr Map.empty
         else
           (case tryUrls env (yahooUrls cleanedSymbols) None of
              Inr entries \<Rightarrow> Inr (mapOf entries)
            | Inl lastError \<Rightarrow>
                (let stooqQuotes = fetchQuotesFromStooq env cleanedSymbols
                 in if stooqQuotes \<noteq> [] then Inr (mapOf stooqQuotes)
                    else
                      (case lastError of
                         Some (ErrorObj message) \<Rightarrow> Inl (ErrorObj message)
                       | Some (OtherValue v) \<Rightarrow> Inl (ErrorObj ''Failed to fetch quotes'')
                       | None \<Rightarrow> Inl (ErrorObj ''Failed to fetch quotes'')))))"

text \<open>What \<open>fetchQuotes\<close> throws at its end for the last value caught: that value when it
  is an \<open>Error\<close>, a new \<open>Error\<close> otherwise.\<close>

definition surfaced :: "Thrown \<Rightarrow> Thrown" where
  "surfaced e = (case e of ErrorObj message \<Rightarrow> ErrorObj message
                 | OtherValue v \<Rightarrow> ErrorObj ''Failed to fetch quotes'')"

subsection \<open>The keyed single-symbol provider\<close>

text \<open>The response of the quote endpoint, with its fields \<open>c\<close>, \<open>h\<close>, \<open>l\<close>, \<open>o\<close>, \<open>pc\<close>
  and \<open>t\<close>. A field is \<open>None\<close> when the JSON has no number there; for \<open>c\<close> this is what
  \<open>typeof data.c !== "number"\<close> tests.\<close>

record FinnhubQuoteResponse =
  data_c :: "number option"
  data_h :: "number option"
  data_l :: "number option"
  data_o :: "number option"
  data_pc :: "number option"
  data_t :: "number option"

definition finnhubUrl :: "string \<Rightarrow> string \<Rightarrow> string" where
  "finnhubUrl normalized apiKey =
     ''https://finnhub.io/api/v1/quote?symbol='' @ encodeURIComponent normalized
     @ ''&token='' @ encodeURIComponent apiKey"

text \<open>\<open>fetchFinnhubQuote\<close>: what is thrown by the request or by the getter propagates;
  \<open>null\<close> is \<open>None\<close>.\<close>

definition fetchFinnhubQuote ::
  "FinnhubQuoteResponse option Env \<Rightarrow> string \<Rightarrow> string \<Rightarrow> Thrown + Quote option" where
  "fetchFinnhubQuote env symbol' apiKey =
     (let normalized = normalizeSymbol symbol'
      in case requestUrl env (finnhubUrl normalized apiKey) of
           Inl e \<Rightarrow> Inl e
         | Inr response \<Rightarrow>
             if responseStatus response \<noteq> 200 then Inr None
             else
               (case responseJson response of
                  Inl e \<Rightarrow> Inl e
                | Inr None \<Rightarrow> Inr None
                | Inr (Some data) \<Rightarrow>
                    if data_c data = None then Inr None
                    else
                      Inr (Some \<lparr>symbol = normalized, shortName = None, longName = None,
                                 currency = None, bid = None, ask = None,
                                 regularMarketPrice = data_c data,
                                 regularMarketPreviousClose = data_pc data,
                                 regularMarketDayLow = data_l data,
                                 regularMarketDayHigh = data_h data,
                                 fiftyTwoWeekLow = None, fiftyTwoWeekHigh = None, marketCap = None,
                                 regularMarketVolume = None,
                                 regularMarketTime = data_t data\<rparr>)))"

text \<open>The numeric fields of a quote, and the property that those present are finite.\<close>

definition numericFields :: "Quote \<Rightarrow> number option list" where
  "numericFields q =
     [bid q, ask q, regularMarketPrice q, regularMarketPreviousClose q, regularMarketDayLow q,
      regularMarketDayHigh q, fiftyTwoWeekLow q, fiftyTwoWeekHigh q, marketCap q,
      regularMarketVolume q, regularMarketTime q]"

definition finiteOrAbsent :: "number option \<Rightarrow> bool" where
  "finiteOrAbsent v = (case v of None \<Rightarrow> True | Some x \<Rightarrow> isFinite x)"

definition finiteFields :: "Quote \<Rightarrow> bool" where
  "finiteFields q = list_all finiteOrAbsent (numericFields q)"


text \<open>A network on which every request is rejected with an \<open>Error\<close>.\<close>

definition failingEnv :: "YahooData Env" where
  "failingEnv =
     \<lparr>requestUrl = (\<lambda>url. Inl (ErrorObj ''Request failed, status 429'')),
      Date_parse = (\<lambda>s. None)\<rparr>"

text \<open>A response of the keyed provider whose price is the JSON number \<open>1e999\<close>, which
  \<open>JSON.parse\<close> reads as \<open>Infinity\<close>, and whose other numbers are 0.\<close>

definition overflowEnv :: "FinnhubQuoteResponse option Env" where
  \<open>overflowEnv =
     \<lparr>requestUrl =
        (\<lambda>url. Inr \<lparr>responseStatus = 200,
                      responseText = ''{"c":1e999,"h":0,"l":0,"o":0,"pc":0,"t":0}'',
                      responseJson =
                        Inr (Some \<lparr>data_c = Some PosInf, data_h = Some (Fin 0), data_l = Some (Fin 0),
                                   data_o = Some (Fin 0), data_pc = Some (Fin 0),
                                   data_t = Some (Fin 0)\<rparr>)\<rparr>),
      Date_parse = (\<lambda>s. None)\<rparr>\<close>

text \<open>A network whose per-symbol provider knows \<open>aapl.us\<close>, with no high of the day.\<close>

definition stooqEnv :: "YahooData Env" where
  "stooqEnv =
     \<lparr>requestUrl =
        (\<lambda>url. if url = ''https://stooq.com/q/l/?s=aapl.us&f=sd2t2ohlcv&h&e=csv''
               then Inr \<lparr>responseStatus = 200,
                         responseText =
                           ''symbol,date,time,low,high,close,volume\<newline>AAPL.US,2024-01-02,22:00:09,183.89,N/A,185.64,0\<newline>'',
                         responseJson = Inl (ErrorObj ''Unexpected token'')\<rparr>
               else Inl (ErrorObj ''Request failed, status 404'')),
      Date_parse = (\<lambda>s. if s = ''2024-01-02T22:00:09Z'' then Some 1704232809000 else None)\<rparr>"

section \<open>Verified properties\<close>

subsection \<open>Evaluation lemmas\<close>

lemma floor_rat_numeral_div: "\<lfloor>numeral a / numeral b :: rat\<rfloor> = numeral a div numeral b"
  using floor_divide_of_int_eq [of "numeral a" "numeral b", where ?'a = rat] by simp

lemma showNat_small: "n < 10 \<Longrightarrow> showNat n = [digitChar n]"
  by (simp add: showNat.simps)

lemma showNat_big: "10 \<le> n \<Longrightarrow> showNat n = showNat (n div 10) @ [digitChar (n mod 10)]"
  by (subst showNat.simps) simp

lemmas formatNumber_eval =
  formatNumber_def grouped_def padZeros_def showNat_small showNat_big digitChar_def Let_def
  floor_rat_numeral_div

lemmas string_eval =
  trim_def trimStart_def isSpace_def toUpperCase_def toLowerCase_def upperChar_def lowerChar_def
  lowerLetters_def upperLetters_def normalizeSymbol_def endsWith_def

lemma toNumber_Fin: "- 18446744073709551616 < q \<Longrightarrow> q < 18446744073709551616 \<Longrightarrow> toNumber q = Fin q"
  by (simp add: toNumber_def overflowBound_def)

lemmas parseNumber_steps =
  parseNumber_def cleaned_def stripClass_def isSpace_def parseFloat_def trimStart_def
  unsignedLiteral_def isDigit_def digitsVal_def digitVal_def pow10_def exponentPart_def
  toNumber_Fin

lemmas table_eval =
  headerIndex_def tickerNames_def sharesNames_def priceNames_def valueNames_def allocationNames_def
  cellAt_def setCell_def padRow_def

subsection \<open>Rows and cells\<close>

lemma length_padRow: "length (padRow n row) = max n (length row)"
  by (simp add: padRow_def)



lemma length_setCell: "length row \<le> length (setCell row i v)"
  by (simp add: setCell_def)







subsection \<open>One row\<close>


lemma length_updateRow: "n \<le> length (fst (updateRow n tIdx sIdx pIdx vIdx quotes row))"
proof -
  have a: "n \<le> length (padRow n row)" by (simp add: length_padRow)
  have b: "\<And>r i v. n \<le> length r \<Longrightarrow> n \<le> length (setCell r i v)"
    using length_setCell le_trans by blast
  show ?thesis
    by (auto simp: updateRow_def Let_def a b split: option.splits)
qed


subsection \<open>The table\<close>

lemma length_reconcile: "length (reconcile n tIdx sIdx pIdx vIdx aIdx quotes rows) = length rows"
  by (simp add: reconcile_def Let_def split: option.splits)




subsection \<open>Concrete evaluations\<close>




lemma parseNumber_0: "parseNumber (Some ''0'') = Some 0"
  by (simp add: parseNumber_steps)

lemma normalizeSymbol_AAPL: "normalizeSymbol ''AAPL'' = ''AAPL''"
  by (simp add: string_eval)



lemma formatNumber_examples:
  "formatNumber (Fin 150) 2 = ''150.00''"
  "formatNumber (Fin 1500) 2 = ''1,500.00''"
  "formatNumber (Fin 100) 2 = ''100.00''"
  "formatNumber (Fin 500) 2 = ''500.00''"
  "formatNumber (Fin 75) 2 = ''75.00''"
  "formatNumber (Fin 25) 2 = ''25.00''"
  "formatNumber (Fin 0) 2 = ''0.00''"
  by (simp_all add: formatNumber_eval)

lemmas updateRow_steps =
  updateRow_def padRow_def cellAt_def setCell_def quotePrice_def orElse_def priceQuote_def
  toNumber_Fin formatNumber_examples


lemma updateRow_AAPL_zero:
  "updateRow 5 0 1 (Some 2) (Some 3) [''AAPL'' \<mapsto> priceQuote ''AAPL'' 150]
     [''AAPL'', ''0'', '''', '''', '''']
   = ([''AAPL'', ''0'', ''150.00'', ''0.00'', ''''], Some (Fin 0))"
  by (simp add: updateRow_steps normalizeSymbol_AAPL parseNumber_0)




lemmas reconcile_steps =
  reconcile_def sumRowValues_def rowValue_def allocationOf_def setCell_def toNumber_Fin
  formatNumber_examples


lemma reconcile_AAPL_zero:
  "reconcile 5 0 1 (Some 2) (Some 3) (Some 4) [''AAPL'' \<mapsto> priceQuote ''AAPL'' 150]
     [[''AAPL'', ''0'', '''', '''', '''']]
   = [[''AAPL'', ''0'', ''150.00'', ''0.00'', '''']]"
  using updateRow_AAPL_zero by (simp add: reconcile_steps)







section \<open>Claims\<close>










lemmas separator_eval =
  isTableSeparator_def separatorPattern_def dashCell_def Opt_def Plus_def isSpace_def

subsection \<open>The locator\<close>

lemma findTableStart_shift:
  "findTableStart k ls = map_option (\<lambda>i. i + k) (findTableStart 0 ls)"
proof (induction ls arbitrary: k)
  case Nil
  show ?case by simp
next
  case (Cons l ls)
  show ?case
  proof (cases ls)
    case Nil
    then show ?thesis by simp
  next
    case (Cons s rest)
    show ?thesis
      using Cons.IH [of "Suc k"] Cons.IH [of "Suc 0"]
      by (simp add: Cons option.map_comp comp_def)
  qed
qed

lemma tableStartsAt_Cons_Suc: "tableStartsAt (l # ls) (Suc i) = tableStartsAt ls i"
  by (simp add: tableStartsAt_def)

lemma tableStartsAt_Cons_0:
  "tableStartsAt (l # s # rest) 0 = (isTableRow l \<and> isTableSeparator s)"
  by (simp add: tableStartsAt_def)

lemma findTableStart_first:
  "findTableStart 0 ls = Some i \<longleftrightarrow> tableStartsAt ls i \<and> (\<forall>j<i. \<not> tableStartsAt ls j)"
proof (induction ls arbitrary: i)
  case Nil
  show ?case by (simp add: tableStartsAt_def)
next
  case (Cons l ls)
  show ?case
  proof (cases ls)
    case Nil
    then show ?thesis by (simp add: tableStartsAt_def)
  next
    case c: (Cons s rest)
    show ?thesis
    proof (cases "isTableRow l \<and> isTableSeparator s")
      case True
      then have z: "tableStartsAt (l # ls) 0" by (simp add: c tableStartsAt_Cons_0)
      have "findTableStart 0 (l # ls) = Some 0" using True by (simp add: c)
      moreover have "(tableStartsAt (l # ls) i \<and> (\<forall>j<i. \<not> tableStartsAt (l # ls) j)) \<longleftrightarrow> i = 0"
        using z by (cases i) auto
      ultimately show ?thesis by auto
    next
      case False
      then have z: "\<not> tableStartsAt (l # ls) 0" by (simp add: c tableStartsAt_Cons_0)
      have f: "findTableStart 0 (l # ls) = map_option Suc (findTableStart 0 ls)"
        using False findTableStart_shift [of "Suc 0" ls] by (auto simp: c)
      show ?thesis
      proof (cases i)
        case 0
        then show ?thesis using z f by auto
      next
        case (Suc i')
        have "(\<forall>j<Suc i'. \<not> tableStartsAt (l # ls) j) \<longleftrightarrow> (\<forall>j<i'. \<not> tableStartsAt ls j)"
        proof
          assume a: "\<forall>j<Suc i'. \<not> tableStartsAt (l # ls) j"
          show "\<forall>j<i'. \<not> tableStartsAt ls j"
          proof (intro allI impI)
            fix j assume "j < i'"
            then have "\<not> tableStartsAt (l # ls) (Suc j)" using a by simp
            then show "\<not> tableStartsAt ls j" by (simp add: tableStartsAt_Cons_Suc)
          qed
        next
          assume a: "\<forall>j<i'. \<not> tableStartsAt ls j"
          show "\<forall>j<Suc i'. \<not> tableStartsAt (l # ls) j"
          proof (intro allI impI)
            fix j assume j: "j < Suc i'"
            show "\<not> tableStartsAt (l # ls) j"
              using z a j by (cases j) (simp_all add: tableStartsAt_Cons_Suc)
          qed
        qed
        then show ?thesis
          using Cons.IH [of i'] f Suc by (auto simp: tableStartsAt_Cons_Suc)
      qed
    qed
  qed
qed

lemma separator_three_dashes: "isTableSeparator ''|---|---|''"
  by (simp add: separator_eval)

lemma separator_two_dashes: "\<not> isTableSeparator ''|--|--|''"
  by (simp add: separator_eval)

lemma separator_spaced_two_dashes: "\<not> isTableSeparator ''| -- | -- |''"
  by (simp add: separator_eval)

lemma separator_colons: "isTableSeparator '' | :---: | ----: | --- ''"
  by (simp add: separator_eval)

lemma separator_one_column: "\<not> isTableSeparator ''|---|''"
  by (simp add: separator_eval)

lemma locateTable_exampleLines: "locateTable exampleLines = Some (1, 3)"
proof -
  have a: "\<not> isTableRow ''Portfolio''" by (simp add: isTableRow_def)
  have b: "isTableRow ''|Ticker|Shares|''" by (simp add: isTableRow_def isSpace_def)
  have c: "isTableRow ''|AAPL|10|''" by (simp add: isTableRow_def isSpace_def)
  have d: "\<not> isTableRow ''''" by (simp add: isTableRow_def)
  show ?thesis
    using a b c d separator_three_dashes
    by (simp add: locateTable_def exampleLines_def)
qed

text \<open>
  C5, as the specification states it, fails: a line whose cells are two dashes is not a
  separator line.
\<close>
theorem two_dash_separator_counterexample: "\<not> isTableSeparator ''|--|--|''"
  by (simp add: separator_eval)

text \<open>
  C5, amended. A table begins at the first line \<open>i\<close> that is a table row and whose next line
  matches the separator pattern; some such line exists exactly when a table is located. The
  pattern asks for three or more dashes in every column: \<open>|---|---|\<close> is a separator, with
  colons and spaces around the dashes too, and \<open>|--|--|\<close> is not.
\<close>

theorem table_starts_at_first_separated_row:
  "(locateTable lines = Some (tableStart, tableEnd) \<longrightarrow>
      tableStart + 1 < length lines
      \<and> isTableRow (lines ! tableStart) \<and> isTableSeparator (lines ! (tableStart + 1))
      \<and> (\<forall>j<tableStart. \<not> (isTableRow (lines ! j) \<and> isTableSeparator (lines ! (j + 1)))))
   \<and> (i + 1 < length lines \<and> isTableRow (lines ! i) \<and> isTableSeparator (lines ! (i + 1))
        \<longrightarrow> locateTable lines \<noteq> None)
   \<and> isTableSeparator ''|---|---|''
   \<and> isTableSeparator '' | :---: | ----: | --- ''
   \<and> \<not> isTableSeparator ''|--|--|''
   \<and> \<not> isTableSeparator ''| -- | -- |''"
proof -
  have a: "tableStart + 1 < length lines
      \<and> isTableRow (lines ! tableStart) \<and> isTableSeparator (lines ! (tableStart + 1))
      \<and> (\<forall>j<tableStart. \<not> (isTableRow (lines ! j) \<and> isTableSeparator (lines ! (j + 1))))"
    if "locateTable lines = Some (tableStart, tableEnd)"
  proof -
    from that have "findTableStart 0 lines = Some tableStart"
      by (auto simp: locateTable_def split: option.splits)
    then have s: "tableStartsAt lines tableStart" and f: "\<forall>j<tableStart. \<not> tableStartsAt lines j"
      by (simp_all add: findTableStart_first)
    have "\<not> (isTableRow (lines ! j) \<and> isTableSeparator (lines ! (j + 1)))" if "j < tableStart" for j
      using f that s by (auto simp: tableStartsAt_def)
    then show ?thesis using s by (simp add: tableStartsAt_def)
  qed
  have b: "locateTable lines \<noteq> None"
    if "i + 1 < length lines \<and> isTableRow (lines ! i) \<and> isTableSeparator (lines ! (i + 1))"
  proof -
    from that have "tableStartsAt lines i" by (simp add: tableStartsAt_def)
    then have "\<exists>k. tableStartsAt lines k \<and> (\<forall>j<k. \<not> tableStartsAt lines j)"
      by (rule exists_least_iff [THEN iffD1, OF exI])
    then obtain k where "findTableStart 0 lines = Some k"
      using findTableStart_first by blast
    then show ?thesis by (simp add: locateTable_def)
  qed
  show ?thesis
    using a b separator_three_dashes separator_two_dashes separator_spaced_two_dashes separator_colons
    by blast
qed

text \<open>
  C5, witness: a document whose table starts at its second line.
\<close>

theorem table_starts_at_first_separated_row_witness:
  "locateTable exampleLines = Some (1, 3)
   \<and> (1::nat) + 1 < length exampleLines
   \<and> isTableRow (exampleLines ! 1) \<and> isTableSeparator (exampleLines ! (1 + 1))
   \<and> \<not> (isTableRow (exampleLines ! 0) \<and> isTableSeparator (exampleLines ! (0 + 1)))
   \<and> locateTable exampleLines \<noteq> None"
  using table_starts_at_first_separated_row [of exampleLines 1 3 1] locateTable_exampleLines
  by simp

lemma split_noShares:
  "split newline ''|Ticker|Price|\<newline>|---|---|\<newline>|AAPL|1|'' = [''|Ticker|Price|'', ''|---|---|'', ''|AAPL|1|'']"
  by (simp add: newline_def)

lemma splitRow_noShares: "splitRow ''|Ticker|Price|'' = [''Ticker'', ''Price'']"
  by (simp add: splitRow_def string_eval)

lemma locateTable_noShares:
  "locateTable [''|Ticker|Price|'', ''|---|---|'', ''|AAPL|1|''] = Some (0, 2)"
proof -
  have b: "isTableRow ''|Ticker|Price|''" by (simp add: isTableRow_def isSpace_def)
  have c: "isTableRow ''|AAPL|1|''" by (simp add: isTableRow_def isSpace_def)
  show ?thesis
    using b c separator_three_dashes
    by (simp add: locateTable_def)
qed

lemma headerIndex_noShares:
  "headerIndex [''Ticker'', ''Price''] tickerNames = Some 0"
  "headerIndex [''Ticker'', ''Price''] sharesNames = None"
  by (simp_all add: table_eval string_eval)


text \<open>
  C6. When a table is located and its header has no ticker column or no shares column, the
  command shows the notice about the required columns and returns without a call that
  changes the editor, whatever the quotes would have been.
\<close>

theorem required_column_missing:
  "locateTable (split newline (if getSelection ed \<noteq> [] then getSelection ed else getValue ed))
     = Some (tableStart, tableEnd)
   \<and> header = splitRow (split newline (if getSelection ed \<noteq> [] then getSelection ed else getValue ed)
                         ! tableStart)
   \<and> (headerIndex header tickerNames = None \<or> headerIndex header sharesNames = None)
   \<longrightarrow> updatePortfolioTable fetch (Some ed)
       = \<lparr>notice = Notice ''Table must include a Ticker/Fund column and a Shares column'' 7000,
          edit = None\<rparr>"
proof (intro impI, elim conjE)
  let ?lines = "split newline (if getSelection ed \<noteq> [] then getSelection ed else getValue ed)"
  assume l: "locateTable ?lines = Some (tableStart, tableEnd)"
    and h: "header = splitRow (?lines ! tableStart)"
    and d: "headerIndex header tickerNames = None \<or> headerIndex header sharesNames = None"
  have u: "updatePortfolioTable fetch (Some ed) =
      (case headerIndex header tickerNames of
         None \<Rightarrow> \<lparr>notice = requiredColumnsNotice, edit = None\<rparr>
       | Some tickerIndex \<Rightarrow>
           (case headerIndex header sharesNames of
              None \<Rightarrow> \<lparr>notice = requiredColumnsNotice, edit = None\<rparr>
            | Some sharesIndex \<Rightarrow>
                updateLocatedTable fetch (getSelection ed) ?lines tableStart tableEnd
                  header tickerIndex sharesIndex))"
    unfolding updatePortfolioTable_def Let_def option.case l prod.case h ..
  from d show "updatePortfolioTable fetch (Some ed)
       = \<lparr>notice = Notice ''Table must include a Ticker/Fund column and a Shares column'' 7000,
          edit = None\<rparr>"
    unfolding u requiredColumnsNotice_def
    by (cases "headerIndex header tickerNames") auto
qed


text \<open>
  C6, witness: a table with the columns \<open>Ticker\<close> and \<open>Price\<close>.
\<close>

theorem required_column_missing_witness:
  "locateTable (split newline (if getSelection noSharesEditor \<noteq> [] then getSelection noSharesEditor
                               else getValue noSharesEditor)) = Some (0, 2)
   \<and> headerIndex (splitRow (split newline (getValue noSharesEditor) ! 0)) sharesNames = None
   \<and> updatePortfolioTable (\<lambda>symbols. Inr Map.empty) (Some noSharesEditor)
       = \<lparr>notice = Notice ''Table must include a Ticker/Fund column and a Shares column'' 7000,
          edit = None\<rparr>"
proof -
  have t: "(if getSelection noSharesEditor \<noteq> [] then getSelection noSharesEditor
            else getValue noSharesEditor) = getValue noSharesEditor"
    by (simp add: noSharesEditor_def)
  have s: "split newline (getValue noSharesEditor) = [''|Ticker|Price|'', ''|---|---|'', ''|AAPL|1|'']"
    using split_noShares by (simp add: noSharesEditor_def)
  have h: "splitRow (split newline (getValue noSharesEditor) ! 0) = [''Ticker'', ''Price'']"
    unfolding s using splitRow_noShares by simp
  show ?thesis
    using required_column_missing [of noSharesEditor 0 2 "[''Ticker'', ''Price'']" "\<lambda>symbols. Inr Map.empty"]
    unfolding t h unfolding s
    using locateTable_noShares headerIndex_noShares by simp
qed

subsection \<open>Zero and absent values\<close>





lemma subtitle_price_falsy:
  "\<not> truthyNumber price \<Longrightarrow> \<not> truthyNumber price' \<Longrightarrow>
   subtitle host b a pc price = subtitle host b a pc price'"
  by (simp add: subtitle_def)











subsection \<open>The fallback chain\<close>

lemma tryUrls_two:
  "tryUrls env [u1, u2] lastError =
     (case yahooAttempt env u1 of
        Inr entries \<Rightarrow> Inr entries
      | Inl e1 \<Rightarrow> (case yahooAttempt env u2 of
                    Inr entries \<Rightarrow> Inr entries
                  | Inl e2 \<Rightarrow> Inl (Some e2)))"
  by (simp split: sum.splits)

lemma yahooUrls_two: "yahooUrls cs = [yahooUrls cs ! 0, yahooUrls cs ! 1]"
  by (simp add: yahooUrls_def Let_def)

lemma fetchStooqQuote_variants:
  "fetchStooqQuote env s =
     (case stooqAttempt env (normalizeSymbol s) (toLowerCase (normalizeSymbol s)) of
        Some quote \<Rightarrow> Some quote
      | None \<Rightarrow> stooqAttempt env (normalizeSymbol s) (toLowerCase (normalizeSymbol s) @ ''.us''))"
  by (simp add: fetchStooqQuote_def stooqCandidates_def Let_def split: option.splits)

lemma fetchStooqQuote_None:
  "fetchStooqQuote env s = None \<longleftrightarrow>
     list_all (\<lambda>candidate. stooqAttempt env (normalizeSymbol s) candidate = None)
       (stooqCandidates (normalizeSymbol s))"
  by (simp add: fetchStooqQuote_def stooqCandidates_def Let_def split: option.splits)

lemma fetchQuotesFromStooq_Nil:
  "fetchQuotesFromStooq env cs = [] \<longleftrightarrow> list_all (\<lambda>s. fetchStooqQuote env s = None) cs"
  by (induction cs) (auto split: option.splits)

lemma fetchQuotes_chain:
  "fetchQuotes env symbols =
     (if cleanSymbols symbols = [] then Inr Map.empty
      else case yahooAttempt env (yahooUrls (cleanSymbols symbols) ! 0) of
             Inr entries \<Rightarrow> Inr (mapOf entries)
           | Inl e1 \<Rightarrow>
               (case yahooAttempt env (yahooUrls (cleanSymbols symbols) ! 1) of
                  Inr entries \<Rightarrow> Inr (mapOf entries)
                | Inl e2 \<Rightarrow>
                    if fetchQuotesFromStooq env (cleanSymbols symbols) \<noteq> []
                    then Inr (mapOf (fetchQuotesFromStooq env (cleanSymbols symbols)))
                    else Inl (surfaced e2)))"
proof -
  have "tryUrls env (yahooUrls (cleanSymbols symbols)) None =
      (case yahooAttempt env (yahooUrls (cleanSymbols symbols) ! 0) of
        Inr entries \<Rightarrow> Inr entries
      | Inl e1 \<Rightarrow> (case yahooAttempt env (yahooUrls (cleanSymbols symbols) ! 1) of
                    Inr entries \<Rightarrow> Inr entries
                  | Inl e2 \<Rightarrow> Inl (Some e2)))"
    by (subst yahooUrls_two) (rule tryUrls_two)
  then show ?thesis
    by (simp add: fetchQuotes_def Let_def surfaced_def split: sum.splits Thrown.splits)
qed

lemma fetchQuotes_raises_iff:
  "fetchQuotes env symbols = Inl e \<longleftrightarrow>
     cleanSymbols symbols \<noteq> []
     \<and> (\<exists>e1 e2. yahooAttempt env (yahooUrls (cleanSymbols symbols) ! 0) = Inl e1
          \<and> yahooAttempt env (yahooUrls (cleanSymbols symbols) ! 1) = Inl e2
          \<and> e = surfaced e2)
     \<and> list_all (\<lambda>s. list_all (\<lambda>candidate. stooqAttempt env (normalizeSymbol s) candidate = None)
                        (stooqCandidates (normalizeSymbol s)))
          (cleanSymbols symbols)"
proof -
  have n: "fetchQuotesFromStooq env (cleanSymbols symbols) = [] \<longleftrightarrow>
      list_all (\<lambda>s. list_all (\<lambda>candidate. stooqAttempt env (normalizeSymbol s) candidate = None)
                        (stooqCandidates (normalizeSymbol s)))
          (cleanSymbols symbols)"
    by (simp add: fetchQuotesFromStooq_Nil fetchStooqQuote_None)
  show ?thesis
    unfolding n [symmetric] fetchQuotes_chain
    by (auto split: sum.splits)
qed

lemma yahooAttempt_failingEnv: "yahooAttempt failingEnv url = Inl (ErrorObj ''Request failed, status 429'')"
  by (simp add: yahooAttempt_def failingEnv_def)

lemma stooqAttempt_failingEnv: "stooqAttempt failingEnv n candidate = None"
  by (simp add: stooqAttempt_def failingEnv_def)

lemma cleanSymbols_aapl: "cleanSymbols [''aapl''] = [''AAPL'']"
  by (simp add: cleanSymbols_def string_eval)

text \<open>
  C7. \<open>fetchQuotes\<close> tries the two URLs of the batch provider in order and returns the map
  of the first that succeeds. When both fail it asks the per-symbol provider for every
  symbol, each under two spellings, the second only when the first gave no quote, and
  returns the quotes found when there is one. It throws exactly when both URLs failed and
  every spelling of every symbol failed; what it throws is then the error caught for the
  second URL (an \<open>Error\<close> thrown in the \<open>try\<close> is thrown again as it is).
\<close>
theorem fetchQuotes_raises_only_when_all_fail:
  "fetchQuotes env symbols =
     (if cleanSymbols symbols = [] then Inr Map.empty
      else case yahooAttempt env (yahooUrls (cleanSymbols symbols) ! 0) of
             Inr entries \<Rightarrow> Inr (mapOf entries)
           | Inl e1 \<Rightarrow>
               (case yahooAttempt env (yahooUrls (cleanSymbols symbols) ! 1) of
                  Inr entries \<Rightarrow> Inr (mapOf entries)
                | Inl e2 \<Rightarrow>
                    if fetchQuotesFromStooq env (cleanSymbols symbols) \<noteq> []
                    then Inr (mapOf (fetchQuotesFromStooq env (cleanSymbols symbols)))
                    else Inl (surfaced e2)))
   \<and> (fetchQuotes env symbols = Inl e \<longleftrightarrow>
        cleanSymbols symbols \<noteq> []
        \<and> (\<exists>e1 e2. yahooAttempt env (yahooUrls (cleanSymbols symbols) ! 0) = Inl e1
             \<and> yahooAttempt env (yahooUrls (cleanSymbols symbols) ! 1) = Inl e2
             \<and> e = surfaced e2)
        \<and> list_all (\<lambda>s. list_all (\<lambda>candidate. stooqAttempt env (normalizeSymbol s) candidate = None)
                           (stooqCandidates (normalizeSymbol s)))
             (cleanSymbols symbols))
   \<and> surfaced (ErrorObj message) = ErrorObj message
   \<and> fetchStooqQuote env s =
       (case stooqAttempt env (normalizeSymbol s) (toLowerCase (normalizeSymbol s)) of
          Some quote \<Rightarrow> Some quote
        | None \<Rightarrow> stooqAttempt env (normalizeSymbol s) (toLowerCase (normalizeSymbol s) @ ''.us''))
   \<and> (fetchQuotesFromStooq env cs = [] \<longleftrightarrow> list_all (\<lambda>s. fetchStooqQuote env s = None) cs)"
  using fetchQuotes_chain [of env symbols] fetchQuotes_raises_iff [of env symbols e]
    fetchStooqQuote_variants [of env s] fetchQuotesFromStooq_Nil [of env cs]
  by (simp add: surfaced_def)

text \<open>
  C7, witness: on a network that rejects every request the error of the batch provider
  comes out.
\<close>

theorem fetchQuotes_raises_only_when_all_fail_witness:
  "cleanSymbols [''aapl''] = [''AAPL'']
   \<and> yahooAttempt failingEnv (yahooUrls [''AAPL''] ! 0) = Inl (ErrorObj ''Request failed, status 429'')
   \<and> yahooAttempt failingEnv (yahooUrls [''AAPL''] ! 1) = Inl (ErrorObj ''Request failed, status 429'')
   \<and> stooqAttempt failingEnv ''AAPL'' ''aapl'' = None
   \<and> stooqAttempt failingEnv ''AAPL'' ''aapl.us'' = None
   \<and> fetchQuotes failingEnv [''aapl''] = Inl (ErrorObj ''Request failed, status 429'')"
proof -
  have "fetchQuotes failingEnv [''aapl''] = Inl (ErrorObj ''Request failed, status 429'')"
    using fetchQuotes_raises_only_when_all_fail
      [of failingEnv "[''aapl'']" "ErrorObj ''Request failed, status 429''",
        THEN conjunct2, THEN conjunct1, THEN iffD2]
    by (simp add: cleanSymbols_aapl yahooAttempt_failingEnv stooqAttempt_failingEnv
        surfaced_def list_all_iff)
  then show ?thesis
    by (simp add: cleanSymbols_aapl yahooAttempt_failingEnv stooqAttempt_failingEnv)
qed

end
